theory Spec2Isabelle
  imports Complex_Main "HOL-Library.Multiset" "HOL-Library.AList" "HOL-Library.Product_Lexorder"
    "HOL-Library.List_Lexorder"
begin

text \<open>
  A model of \<open>app_utils.py\<close>, the scoring and ranking utilities of a horse-race
  prediction app: the numeric coercion \<open>_safe_numeric\<close>, the base score
  \<open>_compute_base_score\<close>, the ranking \<open>build_prediction\<close>, the evaluation of one
  entrant \<open>evaluate_single\<close> and the numerology plan \<open>build_sign_theory_plan\<close>. The
  copy of these functions in \<open>bundle/app_utils.py\<close> is the same code; the functions
  there that call a language model are not modelled.
\<close>

section \<open>Values of the Python program\<close>

text \<open>
  A Python \<open>str\<close> is a sequence of Unicode code points. The column names, labels and
  messages of \<open>app_utils.py\<close> are Japanese, so a string is modelled as the list of its
  code points (written in hexadecimal), not as a list of bytes.
\<close>

type_synonym ustring = "nat list"

text \<open>
  A Python \<open>float\<close>. Finite values are represented by the exact rational they denote:
  binary rounding of finite arithmetic (and its overflow to infinity) is not modelled.
  Infinities and NaN are kept, because \<open>float("inf")\<close> and \<open>float("nan")\<close> parse and a
  missing cell of a table is NaN.
\<close>

datatype pyfloat = Fin rat | PInf | NInf | NaN

datatype error = OverflowError | TypeError

text \<open>The values a cell of the table (or an argument of \<open>_safe_numeric\<close>) can hold.\<close>

datatype pyval = VNone | VBool bool | VInt int | VFloat pyfloat | VStr ustring

subsection \<open>Float arithmetic\<close>

fun fadd :: "pyfloat \<Rightarrow> pyfloat \<Rightarrow> pyfloat" where
  "fadd NaN _ = NaN"
| "fadd _ NaN = NaN"
| "fadd PInf NInf = NaN"
| "fadd NInf PInf = NaN"
| "fadd PInf _ = PInf"
| "fadd _ PInf = PInf"
| "fadd NInf _ = NInf"
| "fadd _ NInf = NInf"
| "fadd (Fin a) (Fin b) = Fin (a + b)"

fun fmul :: "pyfloat \<Rightarrow> pyfloat \<Rightarrow> pyfloat" where
  "fmul NaN _ = NaN"
| "fmul _ NaN = NaN"
| "fmul (Fin a) (Fin b) = Fin (a * b)"
| "fmul (Fin a) PInf = (if a = 0 then NaN else if 0 < a then PInf else NInf)"
| "fmul (Fin a) NInf = (if a = 0 then NaN else if 0 < a then NInf else PInf)"
| "fmul PInf (Fin b) = (if b = 0 then NaN else if 0 < b then PInf else NInf)"
| "fmul NInf (Fin b) = (if b = 0 then NaN else if 0 < b then NInf else PInf)"
| "fmul PInf PInf = PInf"
| "fmul NInf NInf = PInf"
| "fmul PInf NInf = NInf"
| "fmul NInf PInf = NInf"




text \<open>
  \<open>round(x, 2)\<close>: a float that is not finite is returned as it is; a finite one is
  rounded to two decimals, a tie going to the even neighbour.
\<close>

definition round_half_even :: "rat \<Rightarrow> int" where
  "round_half_even q =
     (let f = \<lfloor>q\<rfloor>; r = q - of_int f
      in if r < 1 / 2 then f else if 1 / 2 < r then f + 1
         else if even f then f else f + 1)"

fun round2 :: "pyfloat \<Rightarrow> pyfloat" where
  "round2 (Fin q) = Fin (of_int (round_half_even (q * 100)) / 100)"
| "round2 x = x"

subsection \<open>Strings: \<open>str.strip\<close> and \<open>float(str)\<close>\<close>

text \<open>The code points for which \<open>str.isspace\<close> holds.\<close>

definition py_isspace :: "nat \<Rightarrow> bool" where
  "py_isspace c =
     ((0x9 \<le> c \<and> c \<le> 0xD) \<or> (0x1C \<le> c \<and> c \<le> 0x20) \<or> c = 0x85 \<or> c = 0xA0
      \<or> c = 0x1680 \<or> (0x2000 \<le> c \<and> c \<le> 0x200A) \<or> c = 0x2028 \<or> c = 0x2029
      \<or> c = 0x202F \<or> c = 0x205F \<or> c = 0x3000)"

definition py_strip :: "ustring \<Rightarrow> ustring" where
  "py_strip s = rev (dropWhile py_isspace (rev (dropWhile py_isspace s)))"

text \<open>
  The decimal digits \<open>float\<close> accepts are those of Unicode category Nd; each script has
  its ten digits in a row, and the list holds the code point of every zero
  (Unicode 14, the table of the interpreter the literals were read with).
\<close>

definition digit_zeros :: "nat list" where
  "digit_zeros =
     [0x30, 0x660, 0x6F0, 0x7C0, 0x966, 0x9E6, 0xA66, 0xAE6, 0xB66, 0xBE6, 0xC66, 0xCE6,
      0xD66, 0xDE6, 0xE50, 0xED0, 0xF20, 0x1040, 0x1090, 0x17E0, 0x1810, 0x1946, 0x19D0,
      0x1A80, 0x1A90, 0x1B50, 0x1BB0, 0x1C40, 0x1C50, 0xA620, 0xA8D0, 0xA900, 0xA9D0,
      0xA9F0, 0xAA50, 0xABF0, 0xFF10, 0x104A0, 0x10D30, 0x11066, 0x110F0, 0x11136,
      0x111D0, 0x112F0, 0x11450, 0x114D0, 0x11650, 0x116C0, 0x11730, 0x118E0, 0x11950,
      0x11C50, 0x11D50, 0x11DA0, 0x16A60, 0x16AC0, 0x16B50, 0x1D7CE, 0x1D7D8, 0x1D7E2,
      0x1D7EC, 0x1D7F6, 0x1E140, 0x1E2F0, 0x1E950, 0x1FBF0]"

definition digit_val :: "nat \<Rightarrow> nat option" where
  "digit_val c =
     (case filter (\<lambda>z. z \<le> c \<and> c < z + 10) digit_zeros of
        [] \<Rightarrow> None
      | z # _ \<Rightarrow> Some (c - z))"

text \<open>
  \<open>digitpart ::= digit (["_"] digit)*\<close>: the digits read so far, then the rest of the
  input. An underscore counts only between two digits.
\<close>

fun digits_rest :: "nat list \<Rightarrow> ustring \<Rightarrow> nat list \<times> ustring" where
  "digits_rest ds [] = (ds, [])"
| "digits_rest ds [c] =
     (case digit_val c of Some d \<Rightarrow> (ds @ [d], []) | None \<Rightarrow> (ds, [c]))"
| "digits_rest ds (c # c' # cs) =
     (case digit_val c of
        Some d \<Rightarrow> digits_rest (ds @ [d]) (c' # cs)
      | None \<Rightarrow>
          (if c = 0x5F then
             (case digit_val c' of
                Some d \<Rightarrow> digits_rest (ds @ [d]) cs
              | None \<Rightarrow> (ds, c # c' # cs))
           else (ds, c # c' # cs)))"

definition digitpart :: "ustring \<Rightarrow> (nat list \<times> ustring) option" where
  "digitpart s =
     (case s of
        [] \<Rightarrow> None
      | c # cs \<Rightarrow> (case digit_val c of None \<Rightarrow> None | Some d \<Rightarrow> Some (digits_rest [d] cs)))"

definition digits_value :: "nat list \<Rightarrow> nat" where
  "digits_value ds = foldl (\<lambda>a d. 10 * a + d) 0 ds"

definition pow10 :: "int \<Rightarrow> rat" where
  "pow10 e = (if 0 \<le> e then 10 ^ nat e else 1 / 10 ^ nat (- e))"

text \<open>\<open>exponent ::= ("e" | "E") ["+" | "-"] digitpart\<close>, up to the end of the input.\<close>

definition exponent_part :: "ustring \<Rightarrow> int option" where
  "exponent_part s =
     (case s of
        [] \<Rightarrow> Some 0
      | c # cs \<Rightarrow>
          (if c = 0x65 \<or> c = 0x45 then
             (let (neg, ds) =
                    (case cs of
                       [] \<Rightarrow> (False, cs)
                     | x # xs \<Rightarrow>
                         if x = 0x2D then (True, xs) else if x = 0x2B then (False, xs)
                         else (False, cs))
              in case digitpart ds of
                   Some (es, []) \<Rightarrow>
                     Some (if neg then - int (digits_value es) else int (digits_value es))
                 | _ \<Rightarrow> None)
           else None))"

text \<open>
  \<open>number ::= [digitpart] "." digitpart | digitpart ["."]\<close>, followed by an optional
  exponent; the value is the decimal the text denotes.
\<close>

definition mantissa :: "nat list \<Rightarrow> nat list \<Rightarrow> ustring \<Rightarrow> rat option" where
  "mantissa ip fp rest =
     (case exponent_part rest of
        None \<Rightarrow> None
      | Some e \<Rightarrow>
          Some (of_nat (digits_value (ip @ fp)) * pow10 (e - int (length fp))))"

definition floatnumber :: "ustring \<Rightarrow> rat option" where
  "floatnumber s =
     (case digitpart s of
        Some (ip, rest) \<Rightarrow>
          (case rest of
             c # cs \<Rightarrow>
               (if c = 0x2E then
                  (case digitpart cs of
                     Some (fp, rest') \<Rightarrow> mantissa ip fp rest'
                   | None \<Rightarrow> mantissa ip [] cs)
                else mantissa ip [] rest)
           | [] \<Rightarrow> mantissa ip [] rest)
      | None \<Rightarrow>
          (case s of
             c # cs \<Rightarrow>
               (if c = 0x2E then
                  (case digitpart cs of
                     Some (fp, rest') \<Rightarrow> mantissa [] fp rest'
                   | None \<Rightarrow> None)
                else None)
           | [] \<Rightarrow> None))"

definition ascii_lower :: "nat \<Rightarrow> nat" where
  "ascii_lower c = (if 0x41 \<le> c \<and> c \<le> 0x5A then c + 0x20 else c)"

text \<open>
  \<open>float(s)\<close> for a string: \<open>None\<close> stands for the \<open>ValueError\<close> of a text that is no
  number. Surrounding whitespace is dropped, then comes an optional sign and either a
  decimal number or one of \<open>inf\<close>, \<open>infinity\<close>, \<open>nan\<close> in any case.
\<close>

definition float_of_str :: "ustring \<Rightarrow> pyfloat option" where
  "float_of_str s =
     (let t = py_strip s;
          (neg, u) =
            (case t of
               [] \<Rightarrow> (False, t)
             | c # cs \<Rightarrow>
                 if c = 0x2D then (True, cs) else if c = 0x2B then (False, cs) else (False, t));
          w = map ascii_lower u
      in if w = [0x69, 0x6E, 0x66] \<or> w = [0x69, 0x6E, 0x66, 0x69, 0x6E, 0x69, 0x74, 0x79]
         then Some (if neg then NInf else PInf)
         else if w = [0x6E, 0x61, 0x6E] then Some NaN
         else (case floatnumber u of
                 None \<Rightarrow> None
               | Some q \<Rightarrow> Some (Fin (if neg then - q else q))))"

text \<open>
  \<open>float(n)\<close> for an \<open>int\<close>: an integer too large for a double raises
  \<open>OverflowError\<close>. The largest double is \<open>2^1024 - 2^971\<close>; conversion rounds to
  nearest, so every integer from \<open>2^1024 - 2^970\<close> on is out of range.
\<close>

definition float_of_int :: "int \<Rightarrow> error + pyfloat" where
  "float_of_int n =
     (if 2 ^ 1024 - 2 ^ 970 \<le> \<bar>n\<bar> then Inl OverflowError else Inr (Fin (of_int n)))"

section \<open>Numeric coercion\<close>

text \<open>
  \<^verbatim>\<open>
  def _safe_numeric(value: object, default: float = 0.0) -> float:
      if value is None:
          return default
      if isinstance(value, (int, float)):
          return float(value)
      try:
          return float(str(value).strip())
      except (TypeError, ValueError):
          return default
  \<close>
  \<open>bool\<close> is a subclass of \<open>int\<close>. The conversion \<open>float(value)\<close> of the second branch
  stands outside the \<open>try\<close>.
\<close>

fun safe_numeric :: "pyval \<Rightarrow> pyfloat \<Rightarrow> error + pyfloat" where
  "safe_numeric VNone d = Inr d"
| "safe_numeric (VBool b) d = Inr (Fin (if b then 1 else 0))"
| "safe_numeric (VInt n) d = float_of_int n"
| "safe_numeric (VFloat x) d = Inr x"
| "safe_numeric (VStr s) d =
     (case float_of_str (py_strip s) of Some x \<Rightarrow> Inr x | None \<Rightarrow> Inr d)"

section \<open>Rows of the table and the base score\<close>

text \<open>
  A row handed to \<open>_compute_base_score\<close> is a pandas \<open>Series\<close>: the cells of one row
  under their column names. \<open>row.get(key, default)\<close> is the cell when the name is in the
  index and the default otherwise.
\<close>

type_synonym series = "(ustring \<times> pyval) list"

definition series_get :: "series \<Rightarrow> ustring \<Rightarrow> pyval \<Rightarrow> pyval" where
  "series_get row k d = (case map_of row k of Some v \<Rightarrow> v | None \<Rightarrow> d)"

text \<open>The column names, as the code points of the source's literals.\<close>

definition col_overall :: ustring where
  "col_overall = [0x7DCF, 0x5408, 0x8A55, 0x4FA1]"

definition col_recent :: ustring where
  "col_recent = [0x8FD1, 0x8D70, 0x6307, 0x6570]"

definition col_speed :: ustring where
  "col_speed = [0x30B9, 0x30D4, 0x30FC, 0x30C9, 0x6307, 0x6570]"

definition col_training :: ustring where
  "col_training = [0x8ABF, 0x6559, 0x8A55, 0x4FA1]"

definition col_graded :: ustring where
  "col_graded = [0x91CD, 0x8CDE, 0x5B9F, 0x7E3E]"

definition col_venue :: ustring where
  "col_venue = [0x4E2D, 0x5C71, 0x5B9F, 0x7E3E]"

definition col_turf :: ustring where
  "col_turf = [0x829D, 0x9069, 0x6027]"

definition bonus_flags :: "ustring list" where
  "bonus_flags = [col_graded, col_venue, col_turf]"

text \<open>The grade markers: double circle, circle, triangle, \<open>A\<close>, \<open>B\<close>.\<close>

definition grade_markers :: "ustring list" where
  "grade_markers = [[0x25CE], [0x25CB], [0x25B2], [0x41], [0x42]]"

text \<open>\<open>str(n)\<close> for an integer: its decimal digits, after a minus sign when negative.\<close>

fun digits_of_nat :: "nat \<Rightarrow> nat list" where
  "digits_of_nat n = (if n < 10 then [n] else digits_of_nat (n div 10) @ [n mod 10])"

declare digits_of_nat.simps [simp del]

definition str_of_int :: "int \<Rightarrow> ustring" where
  "str_of_int i =
     (if i < 0 then 0x2D # map (\<lambda>d. 0x30 + d) (digits_of_nat (nat (- i)))
      else map (\<lambda>d. 0x30 + d) (digits_of_nat (nat i)))"

text \<open>
  \<open>str(value)\<close> of a cell. The text of a float is not modelled (\<open>None\<close>): it is made of
  digits, a sign, a point and an exponent, or is \<open>inf\<close> or \<open>nan\<close>, and so is never
  one of the grade markers.
\<close>

fun py_str :: "pyval \<Rightarrow> ustring option" where
  "py_str VNone = Some [0x4E, 0x6F, 0x6E, 0x65]"
| "py_str (VBool b) = Some (if b then [0x54, 0x72, 0x75, 0x65] else [0x46, 0x61, 0x6C, 0x73, 0x65])"
| "py_str (VInt n) = Some (str_of_int n)"
| "py_str (VFloat x) = None"
| "py_str (VStr s) = Some s"

text \<open>\<open>str(row.get(flag, "")).strip() in {...}\<close>\<close>

definition flag_qualifies :: "series \<Rightarrow> ustring \<Rightarrow> bool" where
  "flag_qualifies row flag =
     (case py_str (series_get row flag (VStr [])) of
        Some s \<Rightarrow> py_strip s \<in> set grade_markers
      | None \<Rightarrow> False)"

text \<open>\<open>sum(xs)\<close>: the additions run from the left, starting at 0.\<close>

definition py_sum :: "pyfloat list \<Rightarrow> pyfloat" where
  "py_sum xs = foldl fadd (Fin 0) xs"

text \<open>
  \<^verbatim>\<open>
  def _compute_base_score(row: pd.Series) -> float:
      core_features = [
          _safe_numeric(row.get(OVERALL, 0.0)),
          _safe_numeric(row.get(RECENT, 0.0)),
          _safe_numeric(row.get(SPEED, 0.0)),
          _safe_numeric(row.get(TRAINING, 0.0)) * 0.5,
      ]
      score = sum(core_features)
      bonus_flags = [GRADED, VENUE, TURF]
      for flag in bonus_flags:
          if str(row.get(flag, "")).strip() in {...}:
              score += 1.5
      return score
  \<close>
  An exception of a coercion leaves the function at once.
\<close>

definition compute_base_score :: "series \<Rightarrow> error + pyfloat" where
  "compute_base_score row =
     (case safe_numeric (series_get row col_overall (VFloat (Fin 0))) (Fin 0) of
        Inl e \<Rightarrow> Inl e
      | Inr f1 \<Rightarrow>
     (case safe_numeric (series_get row col_recent (VFloat (Fin 0))) (Fin 0) of
        Inl e \<Rightarrow> Inl e
      | Inr f2 \<Rightarrow>
     (case safe_numeric (series_get row col_speed (VFloat (Fin 0))) (Fin 0) of
        Inl e \<Rightarrow> Inl e
      | Inr f3 \<Rightarrow>
     (case safe_numeric (series_get row col_training (VFloat (Fin 0))) (Fin 0) of
        Inl e \<Rightarrow> Inl e
      | Inr f4 \<Rightarrow>
          (let core_features = [f1, f2, f3, fmul f4 (Fin (1 / 2))];
               score = py_sum core_features
           in Inr (foldl (\<lambda>score flag.
                            if flag_qualifies row flag then fadd score (Fin (3 / 2)) else score)
                     score bonus_flags))))))"


section \<open>Tables and the store they live in\<close>

text \<open>
  A pandas \<open>DataFrame\<close>: the column names and the rows, each row a \<open>Series\<close> of its
  cells. \<open>df.empty\<close> holds when either axis has length 0.
\<close>

record dataframe =
  columns :: "ustring list"
  rows :: "series list"

definition df_empty :: "dataframe \<Rightarrow> bool" where
  "df_empty df = (rows df = [] \<or> columns df = [])"

definition col_number :: ustring where
  "col_number = [0x99AC, 0x756A]"

definition col_name :: ustring where
  "col_name = [0x99AC, 0x540D]"

definition score_col :: ustring where
  "score_col = [0x5F, 0x73, 0x63, 0x6F, 0x72, 0x65]"

text \<open>\<open>df.apply(f, axis=1)\<close>: \<open>f\<close> on every row in turn; the first exception ends it.\<close>

fun apply_rows :: "(series \<Rightarrow> error + 'a) \<Rightarrow> series list \<Rightarrow> error + 'a list" where
  "apply_rows f [] = Inr []"
| "apply_rows f (r # rs) =
     (case f r of
        Inl e \<Rightarrow> Inl e
      | Inr x \<Rightarrow> (case apply_rows f rs of Inl e \<Rightarrow> Inl e | Inr xs \<Rightarrow> Inr (x # xs)))"

text \<open>
  \<open>df[name] = values\<close>: an existing column is overwritten where it stands, a new one is
  appended.
\<close>

definition set_column :: "ustring \<Rightarrow> pyval list \<Rightarrow> dataframe \<Rightarrow> dataframe" where
  "set_column name vals df =
     \<lparr>columns = (if name \<in> set (columns df) then columns df else columns df @ [name]),
      rows = map (\<lambda>(r, v). AList.update name v r) (zip (rows df) vals)\<rparr>"

subsection \<open>Sorting\<close>

text \<open>
  pandas turns each sort column into ranks and sorts the ranks in ascending order; a
  missing value (NaN, \<open>None\<close>) is ranked last whatever the direction. The rank of a
  score in the descending order:
\<close>

fun score_key :: "pyfloat \<Rightarrow> nat \<times> rat" where
  "score_key PInf = (0, 0)"
| "score_key (Fin q) = (1, - q)"
| "score_key NInf = (2, 0)"
| "score_key NaN = (3, 0)"

text \<open>The score of a row of the scored table is the float in its \<open>_score\<close> cell.\<close>

definition row_score :: "series \<Rightarrow> pyfloat" where
  "row_score r = (case series_get r score_col VNone of VFloat x \<Rightarrow> x | _ \<Rightarrow> NaN)"

text \<open>
  The rank of an entrant number in the ascending order: numbers by value, strings by
  code points, missing values last. Numbers and strings in one column cannot be
  ordered: pandas raises \<open>TypeError\<close>.
\<close>

fun number_key :: "pyval \<Rightarrow> nat \<times> rat \<times> ustring" where
  "number_key (VInt n) = (1, of_int n, [])"
| "number_key (VBool b) = (1, if b then 1 else 0, [])"
| "number_key (VFloat NInf) = (0, 0, [])"
| "number_key (VFloat (Fin q)) = (1, q, [])"
| "number_key (VFloat PInf) = (2, 0, [])"
| "number_key (VStr s) = (3, 0, s)"
| "number_key (VFloat NaN) = (4, 0, [])"
| "number_key VNone = (4, 0, [])"

fun is_text :: "pyval \<Rightarrow> bool" where
  "is_text (VStr s) = True"
| "is_text _ = False"

fun is_number :: "pyval \<Rightarrow> bool" where
  "is_number (VInt n) = True"
| "is_number (VBool b) = True"
| "is_number (VFloat x) = (x \<noteq> NaN)"
| "is_number _ = False"

definition sortable :: "pyval list \<Rightarrow> bool" where
  "sortable vs = (\<not> (list_ex is_text vs \<and> list_ex is_number vs))"

definition row_number :: "series \<Rightarrow> pyval" where
  "row_number r = series_get r col_number VNone"

text \<open>
  \<open>sort_values(["_score", NUMBER], ascending=[False, True])\<close>: with several columns
  pandas runs a lexicographic sort of the ranks, which is stable.
\<close>

definition sort_score_number :: "series list \<Rightarrow> series list" where
  "sort_score_number rs =
     sort_key (\<lambda>r. (score_key (row_score r), number_key (row_number r))) rs"

text \<open>
  \<open>sort_values(["_score"], ascending=False)\<close>: with a single column pandas sorts with
  the algorithm named by the parameter \<open>kind\<close>. The call leaves it at its default
  \<open>quicksort\<close>; the pandas documentation names \<open>mergesort\<close> and \<open>stable\<close> as the
  only stable algorithms. What the call guarantees is a rearrangement of the rows with
  the scores descending and the missing scores last; which one it returns among rows of
  equal score depends on the library's sorting routine, so the outcome is a relation
  that admits each of them.
\<close>

definition sorted_by_score :: "series list \<Rightarrow> series list \<Rightarrow> bool" where
  "sorted_by_score rs out =
     (mset out = mset rs \<and> sorted (map (\<lambda>r. score_key (row_score r)) out))"

text \<open>
  \<^verbatim>\<open>
  if NUMBER in scored.columns:
      scored = scored.sort_values(["_score", NUMBER], ascending=[False, True])
  else:
      scored = scored.sort_values(["_score"], ascending=False)
  \<close>
  The call returns a new table and leaves its argument as it is.
\<close>

inductive sort_values_scored :: "dataframe \<Rightarrow> error + dataframe \<Rightarrow> bool" where
  by_score_and_number:
    "col_number \<in> set (columns df) \<Longrightarrow> sortable (map row_number (rows df)) \<Longrightarrow>
     sort_values_scored df (Inr \<lparr>columns = columns df, rows = sort_score_number (rows df)\<rparr>)"
| unsortable_numbers:
    "col_number \<in> set (columns df) \<Longrightarrow> \<not> sortable (map row_number (rows df)) \<Longrightarrow>
     sort_values_scored df (Inl TypeError)"
| by_score:
    "col_number \<notin> set (columns df) \<Longrightarrow> sorted_by_score (rows df) out \<Longrightarrow>
     sort_values_scored df (Inr \<lparr>columns = columns df, rows = out\<rparr>)"

section \<open>The ranking\<close>

text \<open>
  Text that the program builds with f-strings, \<open>format\<close> and \<open>join\<close>: a sequence of
  literal pieces and of cell values still to be printed by \<open>str\<close>. How Python prints a
  float is not modelled, so a printed value stays symbolic.
\<close>

datatype piece = Lit ustring | Str pyval

type_synonym ftext = "piece list"

definition PredictionRoles :: "ustring list" where
  "PredictionRoles =
     [[0x25CE, 0x672C, 0x547D], [0x25CB, 0x5BFE, 0x6297], [0x25B2, 0x5358, 0x7A74],
      [0x2606, 0x7A74, 0x99AC], [0x2715, 0x5371, 0x967A, 0x99AC]]"

definition empty_message :: ftext where
  "empty_message =
     [Lit [0x30C7, 0x30FC, 0x30BF, 0x304C, 0x7A7A, 0x3067, 0x3059, 0x3002, 0x45, 0x78,
           0x63, 0x65, 0x6C, 0x3092, 0x8AAD, 0x307F, 0x8FBC, 0x3093, 0x3067, 0x304F,
           0x3060, 0x3055, 0x3044, 0x3002]]"

text \<open>\<open>f"{label}: {name} (NUMBER {number})"\<close> with the defaults \<open>"?"\<close> and "unknown".\<close>

definition pick_text :: "ustring \<Rightarrow> series \<Rightarrow> ftext" where
  "pick_text label row =
     (let number = series_get row col_number (VStr [0x3F]);
          name = series_get row col_name (VStr [0x4E0D, 0x660E])
      in [Lit label, Lit [0x3A, 0x20], Str name, Lit [0x20, 0x28, 0x99AC, 0x756A, 0x20],
          Str number, Lit [0x29]])"

text \<open>
  The loop over \<open>zip(PredictionRoles, scored.head(5).iterrows())\<close> fills the dictionary
  \<open>picks\<close>; the labels differ, so the dictionary is the list of its entries in the
  order of insertion.
\<close>

definition picks_of :: "dataframe \<Rightarrow> (ustring \<times> ftext) list" where
  "picks_of scored =
     map (\<lambda>(label, row). (label, pick_text label row))
       (zip PredictionRoles (take (length PredictionRoles) (rows scored)))"

fun py_join :: "ustring \<Rightarrow> ftext list \<Rightarrow> ftext" where
  "py_join sep [] = []"
| "py_join sep [t] = t"
| "py_join sep (t # ts) = t @ [Lit sep] @ py_join sep ts"

definition buy_message_of :: "dataframe \<Rightarrow> ftext" where
  "buy_message_of scored =
     (let top_numbers = map (\<lambda>row. [Str (series_get row col_number (VStr [0x3F]))])
                          (take 3 (rows scored))
      in [Lit [0x4E09, 0x9023, 0x8907, 0x30D5, 0x30A9, 0x30FC, 0x30E1, 0x30FC, 0x30B7,
               0x30E7, 0x30F3, 0x4F8B, 0x3A, 0x20, 0x31, 0x5217, 0x76EE, 0x20]]
         @ py_join [0x30FB] (take 1 top_numbers)
         @ [Lit [0x2C, 0x20, 0x32, 0x5217, 0x76EE, 0x20]]
         @ py_join [0x30FB] (take 2 top_numbers)
         @ [Lit [0x2C, 0x20, 0x33, 0x5217, 0x76EE, 0x20]]
         @ py_join [0x30FB] top_numbers
         @ [Lit [0x301C, 0x4EBA, 0x6C17, 0x8584, 0x3092, 0x7DB2, 0x7F85, 0x3002]])"

text \<open>
  Tables are objects: the caller and \<open>build_prediction\<close> hold references to them. The
  store is the list of the tables allocated so far, a reference is a position in it.
  \<^verbatim>\<open>
  def build_prediction(df):
      if df.empty:
          return {}, EMPTY_MESSAGE
      scored = df.copy()
      scored["_score"] = scored.apply(_compute_base_score, axis=1)
      if NUMBER in scored.columns:
          scored = scored.sort_values(["_score", NUMBER], ascending=[False, True])
      else:
          scored = scored.sort_values(["_score"], ascending=False)
      picks = {}
      for label, (_, row) in zip(PredictionRoles, scored.head(5).iterrows()): ...
      top_numbers = [str(row.get(NUMBER, "?")) for _, row in scored.head(3).iterrows()]
      buy_message = TEMPLATE.format(...)
      return picks, buy_message
  \<close>
  \<open>df.copy()\<close> allocates a new table with the cells of \<open>df\<close>; the assignment of the
  \<open>_score\<close> column writes into that copy; \<open>sort_values\<close> allocates its result. The
  outcome is the value returned (or the exception raised) and the store left behind.
\<close>

type_synonym store = "dataframe list"

inductive build_prediction ::
  "store \<Rightarrow> nat \<Rightarrow> (error + (ustring \<times> ftext) list \<times> ftext) \<times> store \<Rightarrow> bool" where
  empty_table:
    "df < length h \<Longrightarrow> df_empty (h ! df) \<Longrightarrow>
     build_prediction h df (Inr ([], empty_message), h)"
| scoring_raises:
    "df < length h \<Longrightarrow> \<not> df_empty (h ! df) \<Longrightarrow>
     scored = length h \<Longrightarrow> h1 = h @ [h ! df] \<Longrightarrow>
     apply_rows compute_base_score (rows (h1 ! scored)) = Inl e \<Longrightarrow>
     build_prediction h df (Inl e, h1)"
| sorting_raises:
    "df < length h \<Longrightarrow> \<not> df_empty (h ! df) \<Longrightarrow>
     scored = length h \<Longrightarrow> h1 = h @ [h ! df] \<Longrightarrow>
     apply_rows compute_base_score (rows (h1 ! scored)) = Inr scores \<Longrightarrow>
     h2 = h1[scored := set_column score_col (map VFloat scores) (h1 ! scored)] \<Longrightarrow>
     sort_values_scored (h2 ! scored) (Inl e) \<Longrightarrow>
     build_prediction h df (Inl e, h2)"
| ranked:
    "df < length h \<Longrightarrow> \<not> df_empty (h ! df) \<Longrightarrow>
     scored = length h \<Longrightarrow> h1 = h @ [h ! df] \<Longrightarrow>
     apply_rows compute_base_score (rows (h1 ! scored)) = Inr scores \<Longrightarrow>
     h2 = h1[scored := set_column score_col (map VFloat scores) (h1 ! scored)] \<Longrightarrow>
     sort_values_scored (h2 ! scored) (Inr sorted_table) \<Longrightarrow>
     scored' = length h2 \<Longrightarrow> h3 = h2 @ [sorted_table] \<Longrightarrow>
     build_prediction h df (Inr (picks_of (h3 ! scored'), buy_message_of (h3 ! scored')), h3)"

subsection \<open>Example tables\<close>

text \<open>
  Two entrants with the same score 9 and the numbers 5 and 3, as in the tie-break
  scenario of the specification; then the table with its \<open>_score\<close> column, and sorted.
\<close>

definition tie_table :: dataframe where
  "tie_table =
     \<lparr>columns = [col_number, col_overall],
      rows = [[(col_number, VInt 5), (col_overall, VInt 9)],
              [(col_number, VInt 3), (col_overall, VInt 9)]]\<rparr>"

definition tie_scored :: dataframe where
  "tie_scored =
     \<lparr>columns = [col_number, col_overall, score_col],
      rows = [[(col_number, VInt 5), (col_overall, VInt 9), (score_col, VFloat (Fin 9))],
              [(col_number, VInt 3), (col_overall, VInt 9), (score_col, VFloat (Fin 9))]]\<rparr>"

definition tie_sorted :: dataframe where
  "tie_sorted =
     \<lparr>columns = [col_number, col_overall, score_col],
      rows = [[(col_number, VInt 3), (col_overall, VInt 9), (score_col, VFloat (Fin 9))],
              [(col_number, VInt 5), (col_overall, VInt 9), (score_col, VFloat (Fin 9))]]\<rparr>"




text \<open>A table with the expected columns and no row.\<close>

definition no_rows_table :: dataframe where
  "no_rows_table = \<lparr>columns = [col_number, col_name, col_overall], rows = []\<rparr>"

section \<open>The evaluation of one entrant\<close>

record HorseEvaluation =
  number :: int
  horse_score :: pyfloat
  jockey_score :: pyfloat
  course_score :: pyfloat
  overall_score :: pyfloat
  horse_comment :: ftext
  jockey_comment :: ftext
  course_comment :: ftext
  summary :: ftext

definition col_potential :: ustring where
  "col_potential = [0x99AC, 0x30DD, 0x30C6, 0x30F3, 0x30B7, 0x30E3, 0x30EB]"

definition col_power :: ustring where
  "col_power = [0x99AC, 0x529B, 0x6307, 0x6570]"

definition col_jockey :: ustring where
  "col_jockey = [0x9A0E, 0x624B, 0x8A55, 0x4FA1]"

definition col_win_rate :: ustring where
  "col_win_rate = [0x9A0E, 0x624B, 0x52DD, 0x7387]"

definition col_course :: ustring where
  "col_course = [0x30B3, 0x30FC, 0x30B9, 0x9069, 0x6027]"

definition col_venue_index :: ustring where
  "col_venue_index = [0x4E2D, 0x5C71, 0x5B9F, 0x7E3E, 0x6307, 0x6570]"

text \<open>The comparison \<open>cell == number\<close> of a cell with an \<open>int\<close>.\<close>

fun cell_equals :: "pyval \<Rightarrow> int \<Rightarrow> bool" where
  "cell_equals (VInt n) k = (n = k)"
| "cell_equals (VBool b) k = ((if b then 1 else 0) = k)"
| "cell_equals (VFloat (Fin q)) k = (q = of_int k)"
| "cell_equals _ k = False"

text \<open>
  \<^verbatim>\<open>
  def _extract_target_row(df, number):
      if NUMBER not in df.columns:
          return None
      match = df[df[NUMBER] == number]
      if match.empty:
          return None
      return match.iloc[0]
  \<close>
\<close>

definition extract_target_row :: "dataframe \<Rightarrow> int \<Rightarrow> series option" where
  "extract_target_row df n =
     (if col_number \<notin> set (columns df) then None
      else (case filter (\<lambda>r. cell_equals (row_number r) n) (rows df) of
              [] \<Rightarrow> None
            | r # _ \<Rightarrow> Some r))"

text \<open>An exception of the first computation is the exception of the sequence.\<close>

definition and_then :: "error + 'a \<Rightarrow> ('a \<Rightarrow> error + 'b) \<Rightarrow> error + 'b" where
  "and_then m f = (case m of Inl e \<Rightarrow> Inl e | Inr x \<Rightarrow> f x)"

definition not_found_comment :: ftext where
  "not_found_comment =
     [Lit [0x5BFE, 0x8C61, 0x306E, 0x99AC, 0x756A, 0x304C, 0x30C7, 0x30FC, 0x30BF,
           0x306B, 0x5B58, 0x5728, 0x3057, 0x307E, 0x305B, 0x3093, 0x3002]]"

definition check_data_summary :: ftext where
  "check_data_summary =
     [Lit [0x30C7, 0x30FC, 0x30BF, 0x3092, 0x78BA, 0x8A8D, 0x3057, 0x3066, 0x304F,
           0x3060, 0x3055, 0x3044, 0x3002]]"

definition summary_tail :: ustring where
  "summary_tail =
     [0x20, 0x70B9, 0x3002, 0x99AC, 0x306E, 0x5B8C, 0x6210, 0x5EA6, 0x3092, 0x8EF8,
      0x306B, 0x3001, 0x9A0E, 0x624B, 0x306E, 0x5B89, 0x5B9A, 0x611F, 0x3068, 0x4E2D,
      0x5C71, 0x9069, 0x6027, 0x3092, 0x52A0, 0x5473, 0x3057, 0x305F, 0x30D0, 0x30E9,
      0x30F3, 0x30B9, 0x578B, 0x306E, 0x8A55, 0x4FA1, 0x3067, 0x3059, 0x3002]"

text \<open>
  \<^verbatim>\<open>
  def evaluate_single(df, number):
      row = _extract_target_row(df, number)
      if row is None:
          return HorseEvaluation(number=number, horse_score=0.0, jockey_score=0.0,
              course_score=0.0, overall_score=0.0, horse_comment=NOT_FOUND,
              jockey_comment="", course_comment="", summary=CHECK_DATA)
      horse_score = _safe_numeric(row.get(POTENTIAL, row.get(POWER, 0.0)))
                    + _safe_numeric(row.get(TRAINING, 0.0))
      jockey_score = _safe_numeric(row.get(JOCKEY, 0.0)) + _safe_numeric(row.get(WIN_RATE, 0.0))
      course_score = _safe_numeric(row.get(VENUE_INDEX, row.get(COURSE, 0.0)))
      overall_score = round(horse_score * 0.5 + jockey_score * 0.3 + course_score * 0.2, 2)
      horse_comment = f"...{_safe_numeric(row.get(POTENTIAL, 'N/A'))}...{_safe_numeric(row.get(TRAINING, 'N/A'))}..."
      jockey_comment = f"...{_safe_numeric(row.get(JOCKEY, 'N/A'))}...{_safe_numeric(row.get(WIN_RATE, 'N/A'))}..."
      course_comment = f"...{_safe_numeric(row.get(COURSE, 'N/A'))}...{_safe_numeric(row.get(VENUE_INDEX, 'N/A'))}..."
      summary = f"...{overall_score}..."
      return HorseEvaluation(number=number, horse_score=round(horse_score, 2),
          jockey_score=round(jockey_score, 2), course_score=round(course_score, 2),
          overall_score=overall_score, ...)
  \<close>
  The coercions run in the order of the source; each may raise.
\<close>

definition evaluate_single :: "dataframe \<Rightarrow> int \<Rightarrow> error + HorseEvaluation" where
  "evaluate_single df n =
     (case extract_target_row df n of
        None \<Rightarrow>
          Inr \<lparr>number = n, horse_score = Fin 0, jockey_score = Fin 0, course_score = Fin 0,
               overall_score = Fin 0, horse_comment = not_found_comment,
               jockey_comment = [Lit []], course_comment = [Lit []],
               summary = check_data_summary\<rparr>
      | Some row \<Rightarrow>
          and_then (safe_numeric (series_get row col_potential
                      (series_get row col_power (VFloat (Fin 0)))) (Fin 0)) (\<lambda>p.
          and_then (safe_numeric (series_get row col_training (VFloat (Fin 0))) (Fin 0)) (\<lambda>t.
          and_then (safe_numeric (series_get row col_jockey (VFloat (Fin 0))) (Fin 0)) (\<lambda>jr.
          and_then (safe_numeric (series_get row col_win_rate (VFloat (Fin 0))) (Fin 0)) (\<lambda>jw.
          and_then (safe_numeric (series_get row col_venue_index
                      (series_get row col_course (VFloat (Fin 0)))) (Fin 0)) (\<lambda>c.
          let horse = fadd p t;
              jockey = fadd jr jw;
              course = c;
              overall = round2 (fadd (fadd (fmul horse (Fin (1 / 2))) (fmul jockey (Fin (3 / 10))))
                                  (fmul course (Fin (1 / 5))))
          in
          and_then (safe_numeric (series_get row col_potential (VStr [0x4E, 0x2F, 0x41])) (Fin 0)) (\<lambda>cp.
          and_then (safe_numeric (series_get row col_training (VStr [0x4E, 0x2F, 0x41])) (Fin 0)) (\<lambda>ct.
          and_then (safe_numeric (series_get row col_jockey (VStr [0x4E, 0x2F, 0x41])) (Fin 0)) (\<lambda>cj.
          and_then (safe_numeric (series_get row col_win_rate (VStr [0x4E, 0x2F, 0x41])) (Fin 0)) (\<lambda>cw.
          and_then (safe_numeric (series_get row col_course (VStr [0x4E, 0x2F, 0x41])) (Fin 0)) (\<lambda>cc.
          and_then (safe_numeric (series_get row col_venue_index (VStr [0x4E, 0x2F, 0x41])) (Fin 0)) (\<lambda>cv.
          Inr \<lparr>number = n,
               horse_score = round2 horse,
               jockey_score = round2 jockey,
               course_score = round2 course,
               overall_score = overall,
               horse_comment =
                 [Lit [0x99AC, 0x30DD, 0x30C6, 0x30F3, 0x30B7, 0x30E3, 0x30EB, 0x3A, 0x20],
                  Str (VFloat cp),
                  Lit [0x20, 0x2F, 0x20, 0x8ABF, 0x6559, 0x8A55, 0x4FA1, 0x3A, 0x20],
                  Str (VFloat ct), Lit [0x3002]],
               jockey_comment =
                 [Lit [0x9A0E, 0x624B, 0x8A55, 0x4FA1, 0x3A, 0x20], Str (VFloat cj),
                  Lit [0x20, 0x2F, 0x20, 0x52DD, 0x7387, 0x3A, 0x20], Str (VFloat cw),
                  Lit [0x25, 0x3002]],
               course_comment =
                 [Lit [0x30B3, 0x30FC, 0x30B9, 0x9069, 0x6027, 0x3A, 0x20], Str (VFloat cc),
                  Lit [0x20, 0x2F, 0x20, 0x4E2D, 0x5C71, 0x5B9F, 0x7E3E, 0x3A, 0x20],
                  Str (VFloat cv), Lit [0x3002]],
               summary =
                 [Lit [0x7DCF, 0x5408, 0x8A55, 0x4FA1, 0x20], Str (VFloat overall),
                  Lit summary_tail]\<rparr>))))))))))))"

text \<open>
  The composite as the specification words it: from the three sub-score fields of an
  evaluation, \<open>round(0.5 * horse_score + 0.3 * jockey_score + 0.2 * course_score, 2)\<close>.
\<close>

definition composite_of_fields :: "HorseEvaluation \<Rightarrow> pyfloat" where
  "composite_of_fields ev =
     round2 (fadd (fadd (fmul (horse_score ev) (Fin (1 / 2))) (fmul (jockey_score ev) (Fin (3 / 10))))
               (fmul (course_score ev) (Fin (1 / 5))))"

subsection \<open>Example tables\<close>

text \<open>Entrant 1 with the jockey rating 0.016 and no other rating.\<close>

definition rating_table :: dataframe where
  "rating_table =
     \<lparr>columns = [col_number, col_jockey],
      rows = [[(col_number, VInt 1), (col_jockey, VFloat (Fin (2 / 125)))]]\<rparr>"

text \<open>
  Entrant 4 whose potential index is the text \<open>abc\<close>, with power index 50 and
  training evaluation 2; its venue-specific index is \<open>abc\<close> too, with course
  aptitude 7.
\<close>

definition unparsable_table :: dataframe where
  "unparsable_table =
     \<lparr>columns = [col_number, col_potential, col_power, col_training, col_venue_index,
                 col_course],
      rows = [[(col_number, VInt 4), (col_potential, VStr [0x61, 0x62, 0x63]),
               (col_power, VInt 50), (col_training, VInt 2),
               (col_venue_index, VStr [0x61, 0x62, 0x63]), (col_course, VInt 7)]]\<rparr>"

text \<open>The evaluations the code returns for these two tables.\<close>

definition rating_evaluation :: HorseEvaluation where
  "rating_evaluation =
     \<lparr>number = 1, horse_score = Fin 0, jockey_score = Fin (1 / 50), course_score = Fin 0,
      overall_score = Fin 0,
      horse_comment =
        [Lit [0x99AC, 0x30DD, 0x30C6, 0x30F3, 0x30B7, 0x30E3, 0x30EB, 0x3A, 0x20],
         Str (VFloat (Fin 0)),
         Lit [0x20, 0x2F, 0x20, 0x8ABF, 0x6559, 0x8A55, 0x4FA1, 0x3A, 0x20],
         Str (VFloat (Fin 0)), Lit [0x3002]],
      jockey_comment =
        [Lit [0x9A0E, 0x624B, 0x8A55, 0x4FA1, 0x3A, 0x20], Str (VFloat (Fin (2 / 125))),
         Lit [0x20, 0x2F, 0x20, 0x52DD, 0x7387, 0x3A, 0x20], Str (VFloat (Fin 0)),
         Lit [0x25, 0x3002]],
      course_comment =
        [Lit [0x30B3, 0x30FC, 0x30B9, 0x9069, 0x6027, 0x3A, 0x20], Str (VFloat (Fin 0)),
         Lit [0x20, 0x2F, 0x20, 0x4E2D, 0x5C71, 0x5B9F, 0x7E3E, 0x3A, 0x20],
         Str (VFloat (Fin 0)), Lit [0x3002]],
      summary =
        [Lit [0x7DCF, 0x5408, 0x8A55, 0x4FA1, 0x20], Str (VFloat (Fin 0)),
         Lit summary_tail]\<rparr>"

definition unparsable_evaluation :: HorseEvaluation where
  "unparsable_evaluation =
     \<lparr>number = 4, horse_score = Fin 2, jockey_score = Fin 0, course_score = Fin 0,
      overall_score = Fin 1,
      horse_comment =
        [Lit [0x99AC, 0x30DD, 0x30C6, 0x30F3, 0x30B7, 0x30E3, 0x30EB, 0x3A, 0x20],
         Str (VFloat (Fin 0)),
         Lit [0x20, 0x2F, 0x20, 0x8ABF, 0x6559, 0x8A55, 0x4FA1, 0x3A, 0x20],
         Str (VFloat (Fin 2)), Lit [0x3002]],
      jockey_comment =
        [Lit [0x9A0E, 0x624B, 0x8A55, 0x4FA1, 0x3A, 0x20], Str (VFloat (Fin 0)),
         Lit [0x20, 0x2F, 0x20, 0x52DD, 0x7387, 0x3A, 0x20], Str (VFloat (Fin 0)),
         Lit [0x25, 0x3002]],
      course_comment =
        [Lit [0x30B3, 0x30FC, 0x30B9, 0x9069, 0x6027, 0x3A, 0x20], Str (VFloat (Fin 7)),
         Lit [0x20, 0x2F, 0x20, 0x4E2D, 0x5C71, 0x5B9F, 0x7E3E, 0x3A, 0x20],
         Str (VFloat (Fin 0)), Lit [0x3002]],
      summary =
        [Lit [0x7DCF, 0x5408, 0x8A55, 0x4FA1, 0x20], Str (VFloat (Fin 1)),
         Lit summary_tail]\<rparr>"

section \<open>The numerology plan\<close>












section \<open>Properties of the numeric coercion\<close>

lemmas column_defs =
  col_overall_def col_recent_def col_speed_def col_training_def col_graded_def
  col_venue_def col_turf_def

lemmas parse_defs =
  float_of_str_def py_strip_def py_isspace_def ascii_lower_def floatnumber_def
  digitpart_def digit_val_def digit_zeros_def mantissa_def exponent_part_def
  digits_value_def pow10_def

lemma safe_numeric_none: "safe_numeric VNone d = Inr d"
  by simp

lemma safe_numeric_float: "safe_numeric (VFloat x) d = Inr x"
  by simp

lemma safe_numeric_unparsable:
  "float_of_str (py_strip s) = None \<Longrightarrow> safe_numeric (VStr s) d = Inr d"
  by simp

lemma safe_numeric_parsed:
  "float_of_str (py_strip s) = Some x \<Longrightarrow> safe_numeric (VStr s) d = Inr x"
  by simp

lemma safe_numeric_int_in_range:
  "\<bar>n\<bar> < 2 ^ 1024 - 2 ^ 970 \<Longrightarrow> safe_numeric (VInt n) d = Inr (Fin (of_int n))"
  by (simp add: float_of_int_def)

text \<open>The four examples of the specification: \<open>"3.5"\<close>, \<open>None\<close>, \<open>"abc"\<close> and \<open>7\<close>.\<close>

lemma safe_numeric_examples:
  "safe_numeric (VStr [0x33, 0x2E, 0x35]) (Fin 0) = Inr (Fin (7 / 2))"
  "safe_numeric VNone (Fin 0) = Inr (Fin 0)"
  "safe_numeric (VStr [0x61, 0x62, 0x63]) (Fin 0) = Inr (Fin 0)"
  "safe_numeric (VInt 7) (Fin 0) = Inr (Fin 7)"
  by (simp_all add: parse_defs float_of_int_def)

text \<open>
  C4. The coercion is claimed never to raise. An \<open>int\<close> takes the branch
  \<open>return float(value)\<close>, which lies outside the \<open>try\<close>: for the integer \<open>10 ** 400\<close>,
  too large for a double, \<open>float\<close> raises \<open>OverflowError\<close> and the coercion with it,
  instead of returning the default.
\<close>

theorem safe_numeric_overflow:
  "safe_numeric (VInt (10 ^ 400)) (Fin 0) = Inl OverflowError"
  by (simp add: float_of_int_def)

section \<open>Properties of the base score\<close>

lemma fadd_zero_left [simp]: "fadd (Fin 0) x = x"
  by (cases x) simp_all

lemma fadd_zero_right [simp]: "fadd x (Fin 0) = x"
  by (cases x) simp_all
















section \<open>Properties of the ranking\<close>

lemmas frame_defs = col_number_def col_name_def score_col_def

lemmas score_eval =
  compute_base_score_def series_get_def column_defs frame_defs float_of_int_def py_sum_def
  bonus_flags_def flag_qualifies_def py_strip_def grade_markers_def

subsection \<open>The order of the sorted table\<close>











subsection \<open>Concrete runs\<close>

lemma tie_table_ranked:
  "build_prediction [tie_table] 0
     (Inr (picks_of tie_sorted, buy_message_of tie_sorted), [tie_table, tie_scored, tie_sorted])"
proof -
  have scores:
    "apply_rows compute_base_score (rows (([tie_table] @ [[tie_table] ! 0]) ! length [tie_table]))
      = Inr [Fin 9, Fin 9]"
    by (simp add: tie_table_def score_eval)
  have scored: "set_column score_col (map VFloat [Fin 9, Fin 9]) tie_table = tie_scored"
    by (simp add: set_column_def tie_table_def tie_scored_def column_defs frame_defs)
  have "sort_values_scored tie_scored
     (Inr \<lparr>columns = columns tie_scored, rows = sort_score_number (rows tie_scored)\<rparr>)"
    by (rule by_score_and_number)
      (simp_all add: tie_scored_def sortable_def row_number_def series_get_def frame_defs
        column_defs)
  moreover have
    "\<lparr>columns = columns tie_scored, rows = sort_score_number (rows tie_scored)\<rparr> = tie_sorted"
    by (simp add: tie_scored_def tie_sorted_def sort_score_number_def row_score_def
        row_number_def series_get_def frame_defs column_defs)
  ultimately have srt: "sort_values_scored tie_scored (Inr tie_sorted)"
    by simp
  have srt': "sort_values_scored
      ((([tie_table] @ [[tie_table] ! 0])[length [tie_table] :=
          set_column score_col (map VFloat [Fin 9, Fin 9])
            (([tie_table] @ [[tie_table] ! 0]) ! length [tie_table])])
        ! length [tie_table]) (Inr tie_sorted)"
    using srt scored by simp
  have ne: "\<not> df_empty ([tie_table] ! 0)"
    by (simp add: df_empty_def tie_table_def)
  have "0 < length [tie_table]" by simp
  from build_prediction.ranked [OF this ne refl refl scores refl srt' refl refl] scored
  show ?thesis by simp
qed





subsection \<open>The empty table\<close>

text \<open>
  C6. For an empty table the one outcome of the ranking is the empty label mapping with
  the "data is empty" message, and the store is the one the call started from: the
  copy that receives the scores was not made, so no row was scored. (For a table that
  is not empty the store grows, see \<open>scored_table_allocated\<close>.)
\<close>

theorem empty_table_result:
  assumes "df < length h" and "df_empty (h ! df)"
  shows "build_prediction h df out \<longleftrightarrow> out = (Inr ([], empty_message), h)"
proof
  assume "build_prediction h df out"
  then show "out = (Inr ([], empty_message), h)"
    using assms by (cases rule: build_prediction.cases) auto
next
  assume "out = (Inr ([], empty_message), h)"
  then show "build_prediction h df out"
    using assms by (simp add: build_prediction.empty_table)
qed

lemma scored_table_allocated:
  assumes "build_prediction h df (res, h')" and "\<not> df_empty (h ! df)"
  shows "length h < length h'"
  using assms by (cases rule: build_prediction.cases) auto

theorem empty_table_result_witness:
  "0 < length [no_rows_table] \<and> df_empty ([no_rows_table] ! 0)
   \<and> build_prediction [no_rows_table] 0 (Inr ([], empty_message), [no_rows_table])"
proof -
  have a: "0 < length [no_rows_table]"
    by simp
  have b: "df_empty ([no_rows_table] ! 0)"
    by (simp add: df_empty_def no_rows_table_def)
  from empty_table_result [OF a b, of "(Inr ([], empty_message), [no_rows_table])"] a b
  show ?thesis by simp
qed

subsection \<open>The caller's table\<close>

text \<open>
  C9. Whatever the outcome of the ranking (a result or an exception), every table that
  was in the store before the call, the caller's table among them, holds what it held
  before; the \<open>_score\<close> column is written into the copy only, so a table that had no such
  column has none afterwards.
\<close>

theorem input_table_unchanged:
  assumes "build_prediction h df (res, h')"
  shows "h' ! df = h ! df \<and> (\<forall>p < length h. h' ! p = h ! p)
    \<and> (score_col \<notin> set (columns (h ! df)) \<longrightarrow> score_col \<notin> set (columns (h' ! df)))"
  using assms
  by (cases rule: build_prediction.cases) (auto simp: nth_append)

theorem input_table_unchanged_witness:
  "build_prediction [tie_table] 0
     (Inr (picks_of tie_sorted, buy_message_of tie_sorted), [tie_table, tie_scored, tie_sorted])
   \<and> [tie_table, tie_scored, tie_sorted] ! 0 = [tie_table] ! 0
   \<and> score_col \<notin> set (columns ([tie_table] ! 0))
   \<and> score_col \<notin> set (columns ([tie_table, tie_scored, tie_sorted] ! 0))
   \<and> score_col \<in> set (columns tie_scored)"
proof -
  have "score_col \<notin> set (columns ([tie_table] ! 0))"
    by (simp add: tie_table_def frame_defs column_defs)
  moreover have "score_col \<in> set (columns tie_scored)"
    by (simp add: tie_scored_def)
  ultimately show ?thesis
    using input_table_unchanged [OF tie_table_ranked] tie_table_ranked by simp
qed

section \<open>Properties of the evaluation of one entrant\<close>

lemmas rating_defs =
  col_potential_def col_power_def col_jockey_def col_win_rate_def col_course_def
  col_venue_index_def

lemma and_then_Inr [simp]:
  "and_then m f = Inr y \<longleftrightarrow> (\<exists>x. m = Inr x \<and> f x = Inr y)"
  by (cases m) (simp_all add: and_then_def)

lemma and_then_simps [simp]: "and_then (Inr x) f = f x" "and_then (Inl e) f = Inl e"
  by (simp_all add: and_then_def)

text \<open>The floor of a fraction of numerals, for the evaluation of \<open>round\<close>.\<close>

lemma floor_rat_numeral_div: "\<lfloor>numeral a / numeral b :: rat\<rfloor> = numeral a div numeral b"
  using floor_divide_of_int_eq [of "numeral a" "numeral b", where ?'a = rat] by simp

lemma floor_rat_neg_numeral_div:
  "\<lfloor>- (numeral a / numeral b) :: rat\<rfloor> = - numeral a div numeral b"
  using floor_divide_of_int_eq [of "- numeral a" "numeral b", where ?'a = rat] by simp

lemma floor_rat_one_div: "\<lfloor>1 / numeral b :: rat\<rfloor> = 1 div numeral b"
  using floor_divide_of_int_eq [of 1 "numeral b", where ?'a = rat] by simp

lemmas round_eval =
  round_half_even_def Let_def floor_rat_numeral_div floor_rat_neg_numeral_div
  floor_rat_one_div

lemmas evaluate_eval =
  evaluate_single_def extract_target_row_def row_number_def series_get_def col_number_def
  column_defs rating_defs round_eval parse_defs float_of_int_def

lemma round_half_even_zero [simp]: "round_half_even 0 = 0"
  by (simp add: round_half_even_def)

subsection \<open>An entrant that is not in the table\<close>

lemma extract_none:
  "col_number \<notin> set (columns df) \<or> (\<forall>r \<in> set (rows df). \<not> cell_equals (row_number r) n)
   \<Longrightarrow> extract_target_row df n = None"
  by (auto simp: extract_target_row_def filter_empty_conv split: list.splits)

text \<open>
  C5. When the table has no entrant-number column, or no row whose entrant number
  equals the requested one, the evaluation returns (it does not raise) the record with
  the four scores 0.0 and the comment that the entrant is not in the data.
\<close>

theorem unmatched_entrant:
  assumes "col_number \<notin> set (columns df)
           \<or> (\<forall>r \<in> set (rows df). \<not> cell_equals (row_number r) n)"
  shows "evaluate_single df n =
           Inr \<lparr>number = n, horse_score = Fin 0, jockey_score = Fin 0, course_score = Fin 0,
                overall_score = Fin 0, horse_comment = not_found_comment,
                jockey_comment = [Lit []], course_comment = [Lit []],
                summary = check_data_summary\<rparr>"
  using extract_none [OF assms] by (simp add: evaluate_single_def)

theorem unmatched_entrant_witness:
  "col_number \<in> set (columns tie_table)
   \<and> filter (\<lambda>r. cell_equals (row_number r) 99) (rows tie_table) = []
   \<and> evaluate_single tie_table 99 =
        Inr \<lparr>number = 99, horse_score = Fin 0, jockey_score = Fin 0, course_score = Fin 0,
             overall_score = Fin 0, horse_comment = not_found_comment,
             jockey_comment = [Lit []], course_comment = [Lit []],
             summary = check_data_summary\<rparr>"
proof -
  have c: "col_number \<in> set (columns tie_table)"
    by (simp add: tie_table_def)
  have f: "filter (\<lambda>r. cell_equals (row_number r) 99) (rows tie_table) = []"
    by (simp add: tie_table_def row_number_def series_get_def col_number_def column_defs)
  then have a: "col_number \<notin> set (columns tie_table)
      \<or> (\<forall>r \<in> set (rows tie_table). \<not> cell_equals (row_number r) 99)"
    by (simp add: filter_empty_conv)
  from unmatched_entrant [OF a] c f show ?thesis
    by simp
qed

subsection \<open>The composite score\<close>

lemma rating_table_evaluation: "evaluate_single rating_table 1 = Inr rating_evaluation"
  by (simp add: evaluate_eval rating_table_def rating_evaluation_def)

text \<open>
  C3, as stated, fails. For entrant 1 of the table with the jockey rating 0.016 the
  code returns the overall score \<open>round(0.3 * 0.016, 2) = 0.0\<close> and the jockey score
  \<open>round(0.016, 2) = 0.02\<close>; the composite of the returned fields is
  \<open>round(0.3 * 0.02, 2) = 0.01\<close>.
\<close>

theorem composite_of_fields_counterexample:
  "map_sum id horse_score (evaluate_single rating_table 1) = Inr (Fin 0)
   \<and> map_sum id jockey_score (evaluate_single rating_table 1) = Inr (Fin (1 / 50))
   \<and> map_sum id course_score (evaluate_single rating_table 1) = Inr (Fin 0)
   \<and> map_sum id overall_score (evaluate_single rating_table 1) = Inr (Fin 0)
   \<and> map_sum id composite_of_fields (evaluate_single rating_table 1) = Inr (Fin (1 / 100))"
  by (simp add: rating_table_evaluation rating_evaluation_def composite_of_fields_def
      round_eval)

text \<open>
  C3, amended. For an entrant that is found, let \<open>p\<close>, \<open>t\<close>, \<open>jr\<close>, \<open>jw\<close> and \<open>c\<close> be
  the coerced cells, so that the sub-scores are \<open>p + t\<close>, \<open>jr + jw\<close> and \<open>c\<close>. The
  returned sub-score fields are these sub-scores rounded to two decimals, and the
  overall score is \<open>round(0.5 * (p + t) + 0.3 * (jr + jw) + 0.2 * c, 2)\<close>, computed from
  the sub-scores before they are rounded. It is the composite of the returned fields
  whenever rounding leaves the three sub-scores as they are.
\<close>

theorem composite_score:
  assumes "extract_target_row df n = Some row"
    and "safe_numeric (series_get row col_potential
           (series_get row col_power (VFloat (Fin 0)))) (Fin 0) = Inr p"
    and "safe_numeric (series_get row col_training (VFloat (Fin 0))) (Fin 0) = Inr t"
    and "safe_numeric (series_get row col_jockey (VFloat (Fin 0))) (Fin 0) = Inr jr"
    and "safe_numeric (series_get row col_win_rate (VFloat (Fin 0))) (Fin 0) = Inr jw"
    and "safe_numeric (series_get row col_venue_index
           (series_get row col_course (VFloat (Fin 0)))) (Fin 0) = Inr c"
    and "evaluate_single df n = Inr ev"
  shows "horse_score ev = round2 (fadd p t) \<and> jockey_score ev = round2 (fadd jr jw)
    \<and> course_score ev = round2 c
    \<and> overall_score ev =
        round2 (fadd (fadd (fmul (fadd p t) (Fin (1 / 2))) (fmul (fadd jr jw) (Fin (3 / 10))))
                  (fmul c (Fin (1 / 5))))
    \<and> (round2 (fadd p t) = fadd p t \<and> round2 (fadd jr jw) = fadd jr jw \<and> round2 c = c
         \<longrightarrow> overall_score ev = composite_of_fields ev)"
  using assms
  by (auto simp: evaluate_single_def composite_of_fields_def Let_def)

lemma unparsable_table_evaluation:
  "evaluate_single unparsable_table 4 = Inr unparsable_evaluation"
  by (simp add: evaluate_eval unparsable_table_def unparsable_evaluation_def)

theorem composite_score_witness:
  "extract_target_row unparsable_table 4 =
     Some [(col_number, VInt 4), (col_potential, VStr [0x61, 0x62, 0x63]),
           (col_power, VInt 50), (col_training, VInt 2),
           (col_venue_index, VStr [0x61, 0x62, 0x63]), (col_course, VInt 7)]
   \<and> evaluate_single unparsable_table 4 = Inr unparsable_evaluation
   \<and> round2 (fadd (Fin 0) (Fin 2)) = fadd (Fin 0) (Fin 2)
   \<and> round2 (fadd (Fin 0) (Fin 0)) = fadd (Fin 0) (Fin 0)
   \<and> horse_score unparsable_evaluation = round2 (fadd (Fin 0) (Fin 2))
   \<and> overall_score unparsable_evaluation =
        round2 (fadd (fadd (fmul (fadd (Fin 0) (Fin 2)) (Fin (1 / 2)))
                        (fmul (fadd (Fin 0) (Fin 0)) (Fin (3 / 10))))
                  (fmul (Fin 0) (Fin (1 / 5))))
   \<and> overall_score unparsable_evaluation = composite_of_fields unparsable_evaluation"
proof -
  let ?row = "[(col_number, VInt 4), (col_potential, VStr [0x61, 0x62, 0x63]),
           (col_power, VInt 50), (col_training, VInt 2),
           (col_venue_index, VStr [0x61, 0x62, 0x63]), (col_course, VInt 7)]"
  have r: "extract_target_row unparsable_table 4 = Some ?row"
    by (simp add: extract_target_row_def unparsable_table_def row_number_def series_get_def
        col_number_def rating_defs column_defs)
  have p: "safe_numeric (series_get ?row col_potential
             (series_get ?row col_power (VFloat (Fin 0)))) (Fin 0) = Inr (Fin 0)"
    by (simp add: series_get_def col_number_def rating_defs column_defs parse_defs)
  have t: "safe_numeric (series_get ?row col_training (VFloat (Fin 0))) (Fin 0) = Inr (Fin 2)"
    by (simp add: series_get_def col_number_def rating_defs column_defs float_of_int_def)
  have jr: "safe_numeric (series_get ?row col_jockey (VFloat (Fin 0))) (Fin 0) = Inr (Fin 0)"
    by (simp add: series_get_def col_number_def rating_defs column_defs)
  have jw: "safe_numeric (series_get ?row col_win_rate (VFloat (Fin 0))) (Fin 0) = Inr (Fin 0)"
    by (simp add: series_get_def col_number_def rating_defs column_defs)
  have c: "safe_numeric (series_get ?row col_venue_index
             (series_get ?row col_course (VFloat (Fin 0)))) (Fin 0) = Inr (Fin 0)"
    by (simp add: series_get_def col_number_def rating_defs column_defs parse_defs)
  have r2: "round2 (fadd (Fin 0) (Fin 2)) = fadd (Fin 0) (Fin 2)"
    by (simp add: round_eval)
  have r0: "round2 (fadd (Fin 0) (Fin 0)) = fadd (Fin 0) (Fin 0)"
    by simp
  have rc: "round2 (Fin 0) = Fin 0"
    by simp
  note score = composite_score [OF r p t jr jw c unparsable_table_evaluation]
  have h: "horse_score unparsable_evaluation = round2 (fadd (Fin 0) (Fin 2))"
    using score by blast
  have ov: "overall_score unparsable_evaluation =
        round2 (fadd (fadd (fmul (fadd (Fin 0) (Fin 2)) (Fin (1 / 2)))
                        (fmul (fadd (Fin 0) (Fin 0)) (Fin (3 / 10))))
                  (fmul (Fin 0) (Fin (1 / 5))))"
    using score by blast
  have "round2 (fadd (Fin 0) (Fin 2)) = fadd (Fin 0) (Fin 2)
      \<and> round2 (fadd (Fin 0) (Fin 0)) = fadd (Fin 0) (Fin 0) \<and> round2 (Fin 0) = Fin 0
      \<longrightarrow> overall_score unparsable_evaluation = composite_of_fields unparsable_evaluation"
    using score by blast
  with r2 r0 rc
  have "overall_score unparsable_evaluation = composite_of_fields unparsable_evaluation"
    by blast
  with r unparsable_table_evaluation r2 r0 h ov show ?thesis
    by blast
qed

subsection \<open>The fallback columns\<close>

text \<open>
  The fallback is the default of \<open>row.get\<close>: it is read when the primary column is not
  in the row.
\<close>

lemma fallback_when_absent:
  assumes "extract_target_row df n = Some row"
    and "map_of row col_potential = None"
    and "safe_numeric (series_get row col_power (VFloat (Fin 0))) (Fin 0) = Inr p"
    and "safe_numeric (series_get row col_training (VFloat (Fin 0))) (Fin 0) = Inr t"
    and "evaluate_single df n = Inr ev"
  shows "horse_score ev = round2 (fadd p t)"
  using assms by (auto simp: evaluate_single_def Let_def series_get_def)

text \<open>
  C10. Let the row of the entrant have a potential-index cell whose text does not parse
  as a number. Then the entrant sub-score is \<open>0 + t\<close> (rounded), \<open>t\<close> the coerced
  training evaluation: the term is the default 0, whatever the power-index cell holds.
  In the same way a venue-specific index that does not parse gives the venue sub-score 0,
  whatever the course aptitude.
\<close>

theorem unparsable_primary_no_fallback:
  assumes "extract_target_row df n = Some row"
    and "safe_numeric (series_get row col_training (VFloat (Fin 0))) (Fin 0) = Inr t"
    and "evaluate_single df n = Inr ev"
  shows "(map_of row col_potential = Some (VStr s) \<and> float_of_str (py_strip s) = None
            \<longrightarrow> horse_score ev = round2 (fadd (Fin 0) t))
       \<and> (map_of row col_venue_index = Some (VStr s') \<and> float_of_str (py_strip s') = None
            \<longrightarrow> course_score ev = Fin 0)"
  using assms
  by (auto simp: evaluate_single_def Let_def series_get_def)

theorem unparsable_primary_no_fallback_witness:
  "extract_target_row unparsable_table 4 =
     Some [(col_number, VInt 4), (col_potential, VStr [0x61, 0x62, 0x63]),
           (col_power, VInt 50), (col_training, VInt 2),
           (col_venue_index, VStr [0x61, 0x62, 0x63]), (col_course, VInt 7)]
   \<and> evaluate_single unparsable_table 4 = Inr unparsable_evaluation
   \<and> float_of_str (py_strip [0x61, 0x62, 0x63]) = None
   \<and> horse_score unparsable_evaluation = round2 (fadd (Fin 0) (Fin 2))
   \<and> course_score unparsable_evaluation = Fin 0"
proof -
  let ?row = "[(col_number, VInt 4), (col_potential, VStr [0x61, 0x62, 0x63]),
           (col_power, VInt 50), (col_training, VInt 2),
           (col_venue_index, VStr [0x61, 0x62, 0x63]), (col_course, VInt 7)]"
  have r: "extract_target_row unparsable_table 4 = Some ?row"
    by (simp add: extract_target_row_def unparsable_table_def row_number_def series_get_def
        col_number_def rating_defs column_defs)
  have t: "safe_numeric (series_get ?row col_training (VFloat (Fin 0))) (Fin 0) = Inr (Fin 2)"
    by (simp add: series_get_def col_number_def rating_defs column_defs float_of_int_def)
  have s: "float_of_str (py_strip [0x61, 0x62, 0x63]) = None"
    by (simp add: parse_defs)
  have pot: "map_of ?row col_potential = Some (VStr [0x61, 0x62, 0x63])"
    by (simp add: col_number_def rating_defs column_defs)
  have ven: "map_of ?row col_venue_index = Some (VStr [0x61, 0x62, 0x63])"
    by (simp add: col_number_def rating_defs column_defs)
  from unparsable_primary_no_fallback [OF r t unparsable_table_evaluation,
      of "[0x61, 0x62, 0x63]" "[0x61, 0x62, 0x63]"] r s pot ven unparsable_table_evaluation
  show ?thesis by simp
qed

section \<open>Properties of the numerology plan\<close>















end
